theory Spec2Isabelle
  imports Complex_Main "HOL-Library.Log_Nat"
begin

section \<open>Data model of \<open>plixel.CsvAnalyser\<close>\<close>

text \<open>
  \<open>CsvAnalyser\<close> wraps a pandas \<open>DataFrame\<close>. Every method is a short delegation to
  pandas, so the embedding consists of two layers: a model of the frame operations the
  methods call (this section and the next), and the methods themselves, translated line
  by line from \<open>src/plixel/CsvAnalyser.py\<close>.

  A cell is a number, a text or the null marker (\<open>NaN\<close>/\<open>None\<close>). A number cell holds
  the real value of an \<open>int64\<close> or a \<open>float64\<close>; the two are not told apart in a cell.
  Where the code converts between them or computes in \<open>float64\<close>, the model says so:
  the comparison of \<open>filter_rows\<close> rounds (\<open>to_float64\<close> below), and the statistics of
  \<open>get_trends\<close> that pandas computes in floating point are a parameter
  (\<open>series_stats\<close>). Column labels are strings of ASCII characters and unique within a
  frame (\<open>wf_table\<close> and \<open>ascii\<close> below); the row labels of the frame's index are natural
  numbers.
\<close>

datatype cell = Num real | Txt string | Null

text \<open>\<open>Number\<close> stands for the dtypes selected by \<open>select_dtypes(include="number")\<close>
  (\<open>int64\<close> and \<open>float64\<close>, the number dtypes that \<open>read_csv\<close> infers), \<open>Object\<close> for
  all others.\<close>

datatype dtype = Number | Object

record table =
  columns :: "string list"
  dtypes :: "dtype list"
  index :: "nat list"
  rows :: "cell list list"

datatype error =
    ValueError string
  | FileNotFoundError string
  | IndexError string
  | TypeError string
  | ReadError string

text \<open>
  Frames are mutable objects that the analyser, and its caller, hold by reference. The
  store maps references to frames; \<open>fresh\<close> is the next unused reference.
\<close>

type_synonym ref = nat

record world =
  heap :: "ref \<Rightarrow> table"
  fresh :: ref

definition alloc :: "world \<Rightarrow> table \<Rightarrow> ref \<times> world" where
  "alloc w t = (fresh w, w\<lparr>heap := (heap w)(fresh w := t), fresh := Suc (fresh w)\<rparr>)"

text \<open>The attributes of an instance: \<open>self._df\<close>, \<open>self.df\<close> and \<open>self._path\<close> (unset,
  \<open>None\<close>, when the instance was built from a frame).\<close>

record analyser =
  priv_df :: ref
  df :: ref
  priv_path :: "string option"

text \<open>A file system maps a path to nothing when no file exists there, and otherwise to
  what \<open>pd.read_csv\<close> makes of the file: an exception or the parsed frame.\<close>

type_synonym filesystem = "string \<Rightarrow> (error + table) option"


section \<open>Strings\<close>

definition endswith :: "string \<Rightarrow> string \<Rightarrow> bool" where
  "endswith s suf = (length suf \<le> length s \<and> drop (length s - length suf) s = suf)"

definition tabular_extension :: "string \<Rightarrow> bool" where
  "tabular_extension p = (endswith p ''.csv'' \<or> endswith p ''.data'')"

definition quoted :: "string \<Rightarrow> string" where
  "quoted s = [CHR 0x27] @ s @ [CHR 0x27]"


definition lower_char :: "char \<Rightarrow> char" where
  "lower_char c =
     (let n = (of_char c :: nat) in if 65 \<le> n \<and> n \<le> 90 then char_of (n + 32) else c)"

definition lower :: "string \<Rightarrow> string" where
  "lower s = map lower_char s"

definition replace_space :: "string \<Rightarrow> string" where
  "replace_space s = map (\<lambda>c. if c = CHR '' '' then CHR ''_'' else c) s"

definition digit_char :: "nat \<Rightarrow> char" where
  "digit_char d = char_of (48 + d)"

function str_nat :: "nat \<Rightarrow> string" where
  "str_nat n = (if n < 10 then [digit_char n] else str_nat (n div 10) @ [digit_char (n mod 10)])"
  by pat_completeness auto
termination
  by (relation "measure id") auto

declare str_nat.simps [simp del]

definition str_int :: "int \<Rightarrow> string" where
  "str_int i = (if i < 0 then CHR ''-'' # str_nat (nat (- i)) else str_nat (nat i))"

section \<open>Construction\<close>

definition must_provide :: error where
  "must_provide = ValueError ''Must provide atleast one argument''"

definition file_not_found :: "string \<Rightarrow> error" where
  "file_not_found p = FileNotFoundError (''File '' @ quoted p @ '' not found'')"

definition only_csv :: error where
  "only_csv = ValueError ''Only .csv files are supported''"

text \<open>
  \<open>__init__(self, *, df=None, file_path=None)\<close>. A frame argument is the reference the
  caller holds; both attributes are set to that same reference. The file branch calls
  \<open>pd.read_csv\<close> twice, which gives two frames of their own.
\<close>

definition init ::
  "filesystem \<Rightarrow> world \<Rightarrow> ref option \<Rightarrow> string option \<Rightarrow> error + (analyser \<times> world)" where
  "init fs w df_arg file_path =
     (case df_arg of
        Some r \<Rightarrow> Inr (\<lparr>priv_df = r, df = r, priv_path = None\<rparr>, w)
      | None \<Rightarrow>
          (case file_path of
             None \<Rightarrow> Inl must_provide
           | Some p \<Rightarrow>
               if tabular_extension p then
                 (case fs p of
                    None \<Rightarrow> Inl (file_not_found p)
                  | Some (Inl e) \<Rightarrow> Inl e
                  | Some (Inr t) \<Rightarrow>
                      (let (r1, w1) = alloc w t; (r2, w2) = alloc w1 t
                       in Inr (\<lparr>priv_df = r1, df = r2, priv_path = Some p\<rparr>, w2)))
               else Inl must_provide))"

section \<open>Frame operations\<close>












text \<open>\<open>df[mask]\<close> and \<open>dropna\<close> keep the selected rows together with their labels.\<close>

definition select_rows :: "(cell list \<Rightarrow> bool) \<Rightarrow> table \<Rightarrow> table" where
  "select_rows keep t =
     (let kept = filter (\<lambda>(l, r). keep r) (zip (index t) (rows t))
      in t\<lparr>index := map fst kept, rows := map snd kept\<rparr>)"

definition dropna :: "table \<Rightarrow> table" where
  "dropna t = select_rows (\<lambda>r. Null \<notin> set r) t"

definition select_by :: "bool list \<Rightarrow> 'a list \<Rightarrow> 'a list" where
  "select_by sel xs = map snd (filter fst (zip sel xs))"

text \<open>\<open>df.drop(columns=c)\<close> for a label \<open>c\<close> of the frame.\<close>

definition drop_label :: "table \<Rightarrow> string \<Rightarrow> table" where
  "drop_label t c =
     (let sel = map (\<lambda>x. x \<noteq> c) (columns t)
      in t\<lparr>columns := select_by sel (columns t), dtypes := select_by sel (dtypes t),
            rows := map (select_by sel) (rows t)\<rparr>)"

text \<open>\<open>df.iloc[i]\<close> for an integer: a negative position counts from the end; the row comes
  back as a series, label by label.\<close>

definition iloc :: "table \<Rightarrow> int \<Rightarrow> error + (string \<times> cell) list" where
  "iloc t i =
     (let n = int (length (rows t)); j = (if i < 0 then n + i else i)
      in if 0 \<le> j \<and> j < n then Inr (zip (columns t) (rows t ! nat j))
         else Inl (IndexError ''single positional indexer is out-of-bounds''))"









section \<open>Methods\<close>

definition column_not_found :: "string \<Rightarrow> error" where
  "column_not_found c = ValueError (''Column '' @ quoted c @ '' not found in the DataFrame'')"


definition index_out_of_bounds :: "int \<Rightarrow> error" where
  "index_out_of_bounds i = IndexError (''Index '' @ str_int i @ '' out of bounds'')"

definition unhashable_list :: error where
  "unhashable_list = TypeError (''unhashable type: '' @ quoted ''list'')"






text \<open>\<open>self.df = self._df\<close>: the attribute is rebound, no frame is copied.\<close>

definition change_to_init_state :: "analyser \<Rightarrow> analyser" where
  "change_to_init_state a = a\<lparr>df := priv_df a\<rparr>"

definition standardise_header :: "string \<Rightarrow> string" where
  "standardise_header col = replace_space (lower col)"

text \<open>Assigning to \<open>self.df.columns\<close> relabels the frame that \<open>self.df\<close> refers to, in
  place.\<close>

definition standardise_headers :: "world \<Rightarrow> analyser \<Rightarrow> world" where
  "standardise_headers w a =
     (let t = heap w (df a)
      in w\<lparr>heap := (heap w)(df a := t\<lparr>columns := map standardise_header (columns t)\<rparr>)\<rparr>)"

definition get_row ::
  "world \<Rightarrow> analyser \<Rightarrow> int \<Rightarrow> error + ((string \<times> cell) list \<times> world)" where
  "get_row w a i =
     (let t = heap w (df a)
      in if i \<ge> int (length (rows t)) then Inl (index_out_of_bounds i)
         else (case iloc t i of Inl e \<Rightarrow> Inl e | Inr row \<Rightarrow> Inr (row, w)))"

text \<open>\<open>dropna(inplace=True)\<close> changes the frame that \<open>self.df\<close> refers to; the method
  returns that same frame.\<close>

definition drop_missing_values :: "world \<Rightarrow> analyser \<Rightarrow> ref \<times> world" where
  "drop_missing_values w a =
     (df a, w\<lparr>heap := (heap w)(df a := dropna (heap w (df a)))\<rparr>)"

text \<open>The argument of \<open>drop_column\<close> is annotated \<open>str | list[str]\<close>. The membership test
  \<open>column not in self.df.columns\<close> hashes its left operand, and a list cannot be
  hashed.\<close>

datatype column_arg = Name string | Names "string list"

definition drop_column ::
  "world \<Rightarrow> analyser \<Rightarrow> column_arg \<Rightarrow> error + (table \<times> world)" where
  "drop_column w a column =
     (let t = heap w (df a)
      in case column of
           Names cs \<Rightarrow> Inl unhashable_list
         | Name c \<Rightarrow>
             if c \<notin> set (columns t) then Inl (column_not_found c)
             else Inr (drop_label t c, w))"

text \<open>The two methods that change \<open>working\<close> in place, and a sequence of calls of
  them on one instance.\<close>

datatype mutation = StandardiseHeaders | DropMissingValues

fun mutate :: "analyser \<Rightarrow> world \<Rightarrow> mutation \<Rightarrow> world" where
  "mutate a w StandardiseHeaders = standardise_headers w a"
| "mutate a w DropMissingValues = snd (drop_missing_values w a)"

definition mutations :: "world \<Rightarrow> analyser \<Rightarrow> mutation list \<Rightarrow> world" where
  "mutations w a ms = foldl (mutate a) w ms"

section \<open>Example frames\<close>

text \<open>The frame \<open>{A: [1, 2, 3], B: [4, 5, 6]}\<close> of the docstrings, and the empty frame with
  the headers \<open>First Name\<close>, \<open>Last Name\<close>, \<open>Age\<close> of the \<open>standardise_headers\<close> doctest.\<close>

definition ab_frame :: table where
  "ab_frame =
     \<lparr>columns = [''A'', ''B''], dtypes = [Number, Number], index = [0, 1, 2],
      rows = [[Num 1, Num 4], [Num 2, Num 5], [Num 3, Num 6]]\<rparr>"

definition header_frame :: table where
  "header_frame =
     \<lparr>columns = [''First Name'', ''Last Name'', ''Age''], dtypes = [Object, Object, Object],
      index = [], rows = []\<rparr>"

definition world_of :: "table \<Rightarrow> world" where
  "world_of t = \<lparr>heap = (\<lambda>r. t), fresh = 1\<rparr>"








text \<open>The instance that \<open>CsvAnalyser(df=df)\<close> builds for the frame at reference \<open>0\<close>.\<close>

definition frame_analyser :: analyser where
  "frame_analyser = \<lparr>priv_df = 0, df = 0, priv_path = None\<rparr>"


definition null_frame :: table where
  "null_frame =
     \<lparr>columns = [''A''], dtypes = [Number], index = [0, 1], rows = [[Num 1], [Null]]\<rparr>"


definition one_file :: "table \<Rightarrow> filesystem" where
  "one_file t = (\<lambda>p. if p = ''people.csv'' then Some (Inr t) else None)"

text \<open>The instance and the store that \<open>CsvAnalyser(file_path="people.csv")\<close> builds in
  \<open>world_of t\<close> when the file parses to \<open>t\<close>.\<close>

definition file_analyser :: analyser where
  "file_analyser = \<lparr>priv_df = 1, df = 2, priv_path = Some ''people.csv''\<rparr>"

definition file_world :: "table \<Rightarrow> world" where
  "file_world t = \<lparr>heap = ((\<lambda>r. t)(1 := t))(2 := t), fresh = 3\<rparr>"

section \<open>Auxiliary facts\<close>


















lemma header_frame_standardised:
  "map standardise_header (columns header_frame) = [''first_name'', ''last_name'', ''age'']"
  by code_simp

lemma init_file_example:
  "init (one_file t) (world_of t) None (Some ''people.csv'') = Inr (file_analyser, file_world t)"
  by (simp add: init_def one_file_def tabular_extension_def endswith_def alloc_def world_of_def
      file_analyser_def file_world_def eval_nat_numeral)

lemma mutate_other: "r \<noteq> df a \<Longrightarrow> heap (mutate a w m) r = heap w r"
  by (cases m) (simp_all add: standardise_headers_def drop_missing_values_def Let_def)

lemma mutations_other: "r \<noteq> df a \<Longrightarrow> heap (mutations w a ms) r = heap w r"
  unfolding mutations_def by (induction ms arbitrary: w) (simp_all add: mutate_other)













section \<open>Results\<close>

text \<open>
  C1. The \<open>original\<close> frame is claimed to stay as it was at construction under every
  sequence of calls. An instance built from a frame holds that one frame under both
  attributes, so \<open>standardise_headers\<close> relabels \<open>original\<close> too and
  \<open>drop_missing_values\<close> removes rows from it. An instance built from a file starts
  with two frames, but \<open>change_to_init_state\<close> rebinds \<open>working\<close> to the frame of
  \<open>original\<close>, and the next in-place call changes \<open>original\<close> as well.
\<close>

theorem original_mutated_through_alias:
  "init fs (world_of header_frame) (Some 0) None =
     Inr (frame_analyser, world_of header_frame) \<and>
   heap (world_of header_frame) (priv_df frame_analyser) = header_frame \<and>
   columns header_frame = [''First Name'', ''Last Name'', ''Age''] \<and>
   columns (heap (standardise_headers (world_of header_frame) frame_analyser)
              (priv_df frame_analyser)) = [''first_name'', ''last_name'', ''age''] \<and>
   rows null_frame = [[Num 1], [Null]] \<and>
   rows (heap (snd (drop_missing_values (world_of null_frame) frame_analyser))
           (priv_df frame_analyser)) = [[Num 1]] \<and>
   init (one_file header_frame) (world_of header_frame) None (Some ''people.csv'') =
     Inr (file_analyser, file_world header_frame) \<and>
   heap (file_world header_frame) (priv_df file_analyser) = header_frame \<and>
   columns (heap (standardise_headers (file_world header_frame)
                    (change_to_init_state file_analyser))
              (priv_df file_analyser)) = [''first_name'', ''last_name'', ''age'']"
  using header_frame_standardised init_file_example [of header_frame]
  by (simp add: init_def frame_analyser_def world_of_def null_frame_def file_analyser_def
      file_world_def change_to_init_state_def
      standardise_headers_def drop_missing_values_def dropna_def select_rows_def Let_def)
    (simp add: header_frame_def)

text \<open>
  C2. \<open>change_to_init_state()\<close> is claimed to restore \<open>working\<close> to the table given at
  construction after any sequence of mutating calls. For an instance built from a
  frame, \<open>working\<close> and \<open>original\<close> are the same frame: after \<open>standardise_headers\<close>
  and a reset the headers are still the standardised ones, and after
  \<open>drop_missing_values\<close> and a reset the row with the null cell is still gone.
\<close>

theorem change_to_init_state_keeps_mutation:
  "init fs (world_of header_frame) (Some 0) None =
     Inr (frame_analyser, world_of header_frame) \<and>
   heap (world_of header_frame) (df frame_analyser) = header_frame \<and>
   columns header_frame = [''First Name'', ''Last Name'', ''Age''] \<and>
   columns (heap (standardise_headers (world_of header_frame) frame_analyser)
              (df (change_to_init_state frame_analyser))) =
     [''first_name'', ''last_name'', ''age''] \<and>
   rows null_frame = [[Num 1], [Null]] \<and>
   rows (heap (snd (drop_missing_values (world_of null_frame) frame_analyser))
           (df (change_to_init_state frame_analyser))) = [[Num 1]]"
  using header_frame_standardised
  by (simp add: init_def frame_analyser_def world_of_def null_frame_def
      change_to_init_state_def
      standardise_headers_def drop_missing_values_def dropna_def select_rows_def Let_def)
    (simp add: header_frame_def)

text \<open>
  For an instance built from a file the two frames are distinct, and both properties
  hold up to the first reset: after any sequence of \<open>standardise_headers\<close> and
  \<open>drop_missing_values\<close> calls, \<open>original\<close> still is the parsed table, and so is
  \<open>working\<close> after \<open>change_to_init_state()\<close>.
\<close>

theorem file_instance_reset_restores:
  assumes "init fs w None (Some p) = Inr (a, w')"
  shows "\<exists>t. fs p = Some (Inr t) \<and> priv_df a \<noteq> df a \<and>
     heap (mutations w' a ms) (priv_df a) = t \<and>
     heap (mutations w' a ms) (df (change_to_init_state a)) = t"
proof -
  from assms obtain t where t: "fs p = Some (Inr t)" and ext: "tabular_extension p"
    by (auto simp: init_def split: if_splits option.splits sum.splits)
  from assms t ext have a: "priv_df a = fresh w" "df a = Suc (fresh w)"
    and w': "heap w' (fresh w) = t"
    by (auto simp: init_def alloc_def Let_def)
  have "heap (mutations w' a ms) (priv_df a) = heap w' (priv_df a)"
    using a by (intro mutations_other) simp
  then show ?thesis
    using t a w' by (simp add: change_to_init_state_def)
qed

theorem file_instance_reset_restores_witness:
  "init (one_file null_frame) (world_of null_frame) None (Some ''people.csv'') =
     Inr (file_analyser, file_world null_frame) \<and>
   heap (mutations (file_world null_frame) file_analyser [StandardiseHeaders, DropMissingValues])
     (df (change_to_init_state file_analyser)) = null_frame \<and>
   rows (heap (mutations (file_world null_frame) file_analyser
                 [StandardiseHeaders, DropMissingValues]) (df file_analyser)) = [[Num 1]]"
proof -
  have i: "init (one_file null_frame) (world_of null_frame) None (Some ''people.csv'') =
     Inr (file_analyser, file_world null_frame)"
    by (rule init_file_example)
  have "one_file null_frame ''people.csv'' = Some (Inr null_frame)"
    by (simp add: one_file_def)
  moreover have "rows (heap (mutations (file_world null_frame) file_analyser
                 [StandardiseHeaders, DropMissingValues]) (df file_analyser)) = [[Num 1]]"
    by (simp add: mutations_def standardise_headers_def drop_missing_values_def dropna_def
        select_rows_def Let_def file_world_def file_analyser_def null_frame_def)
  ultimately show ?thesis
    using i file_instance_reset_restores [OF i, of "[StandardiseHeaders, DropMissingValues]"]
    by auto
qed

text \<open>
  C3. Construction with neither argument fails with the configuration error, and
  construction with only a path that does not end in \<open>.csv\<close> or \<open>.data\<close> is claimed to
  fail with a different, unsupported-format error. In the code the second case falls
  into the same \<open>else\<close> branch: for the path \<open>report.txt\<close> the outcome is the very
  error of the call without arguments, and not the error \<open>merge_csv\<close> raises for a
  wrong extension.
\<close>

theorem init_bad_extension_same_error:
  "init fs w None (Some ''report.txt'') = Inl must_provide \<and>
   init fs w None None = Inl must_provide \<and>
   must_provide \<noteq> only_csv"
  by (simp add: init_def tabular_extension_def endswith_def must_provide_def only_csv_def)

text \<open>
  C4. \<open>get_row(index)\<close> is claimed to raise exactly when the index lies outside
  \<open>0 \<le> index < row_count\<close>, negative indices included. The method guards only against
  \<open>index >= len(self.df)\<close> and hands everything else to \<open>iloc\<close>, which counts a negative
  position from the end: on the three-row frame, index \<open>-1\<close> returns the last row.
\<close>

theorem get_row_negative_counterexample:
  "get_row (world_of ab_frame) frame_analyser (- 1) =
     Inr ([(''A'', Num 3), (''B'', Num 6)], world_of ab_frame) \<and>
   (- 1 :: int) < 0"
  by (simp add: get_row_def iloc_def Let_def world_of_def ab_frame_def frame_analyser_def)

text \<open>
  C4, as the code has it. With \<open>n\<close> the row count, \<open>get_row(i)\<close> raises an \<open>IndexError\<close>
  exactly when \<open>i \<ge> n\<close> or \<open>i < -n\<close>; for \<open>0 \<le> i < n\<close> it returns row \<open>i\<close>, and for
  \<open>-n \<le> i < 0\<close> row \<open>n + i\<close>, each as the list of the column labels paired with the
  row's cells; the store is returned unchanged.
\<close>

theorem get_row_bounds:
  "(int (length (rows (heap w (df a)))) \<le> i \<or> i < - int (length (rows (heap w (df a)))) \<longrightarrow>
      (\<exists>m. get_row w a i = Inl (IndexError m))) \<and>
   (0 \<le> i \<and> i < int (length (rows (heap w (df a)))) \<longrightarrow>
      get_row w a i = Inr (zip (columns (heap w (df a))) (rows (heap w (df a)) ! nat i), w)) \<and>
   (- int (length (rows (heap w (df a)))) \<le> i \<and> i < 0 \<longrightarrow>
      get_row w a i =
        Inr (zip (columns (heap w (df a)))
               (rows (heap w (df a)) ! nat (int (length (rows (heap w (df a)))) + i)), w))"
  by (auto simp: get_row_def iloc_def Let_def index_out_of_bounds_def)

theorem get_row_bounds_witness:
  "get_row (world_of ab_frame) frame_analyser 1 =
     Inr ([(''A'', Num 2), (''B'', Num 5)], world_of ab_frame) \<and>
   get_row (world_of ab_frame) frame_analyser (- 3) =
     Inr ([(''A'', Num 1), (''B'', Num 4)], world_of ab_frame) \<and>
   (\<exists>m. get_row (world_of ab_frame) frame_analyser 3 = Inl (IndexError m)) \<and>
   (\<exists>m. get_row (world_of ab_frame) frame_analyser (- 4) = Inl (IndexError m))"
  using get_row_bounds [of "world_of ab_frame" frame_analyser 1]
    get_row_bounds [of "world_of ab_frame" frame_analyser "- 3"]
    get_row_bounds [of "world_of ab_frame" frame_analyser 3]
    get_row_bounds [of "world_of ab_frame" frame_analyser "- 4"]
  by (simp add: world_of_def ab_frame_def frame_analyser_def)

text \<open>
  C5. \<open>drop_column\<close> is claimed to accept a list of column names. Its first statement
  tests \<open>column not in self.df.columns\<close>, which raises \<open>TypeError\<close> for every list,
  whatever it holds; a list argument never reaches \<open>drop\<close>. A single name that is
  present is dropped.
\<close>

theorem drop_column_list_raises:
  "drop_column w a (Names cs) = Inl unhashable_list \<and>
   drop_column (world_of ab_frame) frame_analyser (Names [''A'']) = Inl unhashable_list \<and>
   drop_column (world_of ab_frame) frame_analyser (Name ''A'') =
     Inr (\<lparr>columns = [''B''], dtypes = [Number], index = [0, 1, 2],
           rows = [[Num 4], [Num 5], [Num 6]]\<rparr>, world_of ab_frame)"
  by (simp add: drop_column_def Let_def world_of_def ab_frame_def frame_analyser_def
      drop_label_def select_by_def)









text \<open>
  C10. When both a frame and a path are supplied, construction succeeds with the frame:
  both attributes refer to it, no path is recorded, the store is untouched, and neither
  the path nor the file system has any influence on the outcome.
\<close>

theorem init_df_ignores_path:
  "init fs w (Some r) (Some p) = Inr (\<lparr>priv_df = r, df = r, priv_path = None\<rparr>, w) \<and>
   init fs w (Some r) (Some p) = init fs' w (Some r) None"
  by (simp add: init_def)

end
